theory Spec2Isabelle
  imports Complex_Main
begin

section \<open>JavaScript values\<close>

text \<open>
  A JavaScript number, as far as the server uses one: it is compared, passed to
  \<open>Math.min\<close> and \<open>Math.max\<close>, and tested for truthiness; no arithmetic is done on it.
  A finite double is represented by the rational it denotes (the literal \<open>0.7\<close> by 7/10),
  and \<open>-0\<close> is identified with \<open>0\<close>: both are falsy and compare alike, so that
  \<open>||\<close> replaces either before it reaches \<open>Math.min\<close>.
\<close>

datatype jsnum = NaN | NegInf | Fin rat | PosInf

text \<open>The relational operator \<open>a < b\<close> on numbers: false as soon as one side is NaN.\<close>

fun num_lt :: "jsnum \<Rightarrow> jsnum \<Rightarrow> bool" where
  "num_lt NaN _ = False"
| "num_lt _ NaN = False"
| "num_lt _ NegInf = False"
| "num_lt NegInf _ = True"
| "num_lt PosInf _ = False"
| "num_lt (Fin a) PosInf = True"
| "num_lt (Fin a) (Fin b) = (a < b)"

text \<open>\<open>a > b\<close> is \<open>b < a\<close>.\<close>

definition num_gt :: "jsnum \<Rightarrow> jsnum \<Rightarrow> bool" where
  "num_gt a b = num_lt b a"

definition Math_min :: "jsnum \<Rightarrow> jsnum \<Rightarrow> jsnum" where
  "Math_min a b = (if a = NaN \<or> b = NaN then NaN else if num_lt b a then b else a)"

definition Math_max :: "jsnum \<Rightarrow> jsnum \<Rightarrow> jsnum" where
  "Math_max a b = (if a = NaN \<or> b = NaN then NaN else if num_lt a b then b else a)"

text \<open>
  The values a parsed JSON body can hold, with \<open>JUndefined\<close> for a property that is
  absent. A string is the list of its code units; the strings of the model are those
  of code units below 256.
\<close>

datatype jsval =
    JUndefined
  | JNull
  | JBool bool
  | JNum jsnum
  | JStr string
  | JArr "jsval list"
  | JObj "(string \<times> jsval) list"

fun typeof :: "jsval \<Rightarrow> string" where
  "typeof JUndefined = ''undefined''"
| "typeof JNull = ''object''"
| "typeof (JBool _) = ''boolean''"
| "typeof (JNum _) = ''number''"
| "typeof (JStr _) = ''string''"
| "typeof (JArr _) = ''object''"
| "typeof (JObj _) = ''object''"

text \<open>ToBoolean: what \<open>!v\<close>, \<open>v && e\<close> and \<open>v || e\<close> test.\<close>

fun truthy :: "jsval \<Rightarrow> bool" where
  "truthy JUndefined = False"
| "truthy JNull = False"
| "truthy (JBool b) = b"
| "truthy (JNum n) = (n \<noteq> NaN \<and> n \<noteq> Fin 0)"
| "truthy (JStr s) = (s \<noteq> [])"
| "truthy (JArr _) = True"
| "truthy (JObj _) = True"

text \<open>\<open>a || b\<close>\<close>

definition js_or :: "jsval \<Rightarrow> jsval \<Rightarrow> jsval" where
  "js_or a b = (if truthy a then a else b)"

text \<open>
  ToNumber, which \<open>Math.min\<close> and \<open>Math.max\<close> apply to their arguments. The conversion of
  a string, an array or an object is the runtime's numeric-literal parser; it is the
  parameter \<open>toNum\<close>.
\<close>

fun ToNumber :: "(jsval \<Rightarrow> jsnum) \<Rightarrow> jsval \<Rightarrow> jsnum" where
  "ToNumber toNum JUndefined = NaN"
| "ToNumber toNum JNull = Fin 0"
| "ToNumber toNum (JBool b) = (if b then Fin 1 else Fin 0)"
| "ToNumber toNum (JNum n) = n"
| "ToNumber toNum v = toNum v"

subsection \<open>Strings\<close>

text \<open>
  The white space and line terminators that \<open>String.prototype.trim\<close> strips, among the
  code units below 256: TAB, LF, VT, FF, CR, SP and NBSP.
\<close>

definition isWhiteSpace :: "char \<Rightarrow> bool" where
  "isWhiteSpace c = (of_char c \<in> {9, 10, 11, 12, 13, 32, 160 :: nat})"

definition trim :: "string \<Rightarrow> string" where
  "trim s = rev (dropWhile isWhiteSpace (rev (dropWhile isWhiteSpace s)))"

text \<open>\<open>s.split(sep)\<close> for a separator of one code unit: never the empty list.\<close>

fun split :: "char \<Rightarrow> string \<Rightarrow> string list" where
  "split sep [] = [[]]"
| "split sep (c # cs) =
     (if c = sep then [] # split sep cs
      else (case split sep cs of [] \<Rightarrow> [[c]] | t # ts \<Rightarrow> (c # t) # ts))"

text \<open>The decimal digits of a natural number, for template literals.\<close>

fun decimal :: "nat \<Rightarrow> string" where
  "decimal n =
     (if n < 10 then [''0123456789'' ! n]
      else decimal (n div 10) @ [''0123456789'' ! (n mod 10)])"

declare decimal.simps [simp del]

section \<open>Requests and responses\<close>

text \<open>
  \<open>req.body\<close> after \<open>express.json\<close>: the eight properties that both the middleware and
  the handler destructure. The layers in front of the route (security headers, rate
  limiter, CORS, body parser) are not part of the model.
\<close>

record chatRequest =
  model :: jsval
  systemPrompt :: jsval
  userPrompt :: jsval
  temperature :: jsval
  maxTokens :: jsval
  presencePenalty :: jsval
  frequencyPenalty :: jsval
  stopSequence :: jsval

text \<open>\<open>res.status(n).json(obj)\<close>: the status and the properties of the object, in order.\<close>

record http_response =
  status :: nat
  json :: "(string \<times> jsval) list"

text \<open>What a middleware does with a request: it answers, or it calls \<open>next()\<close>.\<close>

datatype mw_result = Responded http_response | Next

section \<open>Input validation middleware\<close>

definition validation_error :: "string \<Rightarrow> mw_result" where
  "validation_error msg =
     Responded \<lparr>status = 400,
       json = [(''error'', JStr msg), (''type'', JStr ''validation_error'')]\<rparr>"

definition allowedModels :: "jsval list" where
  "allowedModels = [JStr ''gpt-3.5-turbo'', JStr ''gpt-4'', JStr ''gpt-4-turbo-preview'']"

text \<open>One entry of \<open>numericValidations\<close>: field, value, min, max.\<close>

type_synonym validation = "string \<times> jsval \<times> nat \<times> nat"

definition numericValidations :: "chatRequest \<Rightarrow> validation list" where
  "numericValidations b =
     [(''temperature'', temperature b, 0, 2),
      (''maxTokens'', maxTokens b, 1, 4000),
      (''presencePenalty'', presencePenalty b, 0, 2),
      (''frequencyPenalty'', frequencyPenalty b, 0, 2)]"

text \<open>
  The test of one entry. The two comparisons are reached only by a value of type
  number, since \<open>||\<close> short-circuits.
\<close>

fun out_of_bounds :: "jsval \<Rightarrow> nat \<Rightarrow> nat \<Rightarrow> bool" where
  "out_of_bounds (JNum n) lo hi = (num_lt n (Fin (of_nat lo)) \<or> num_gt n (Fin (of_nat hi)))"
| "out_of_bounds v lo hi = True"

text \<open>The \<open>for\<close> loop over \<open>numericValidations\<close>: it returns at the first entry that fails.\<close>

fun validateNumeric :: "validation list \<Rightarrow> mw_result" where
  "validateNumeric [] = Next"
| "validateNumeric ((field, v, lo, hi) # rest) =
     (if v \<noteq> JUndefined then
        (if typeof v \<noteq> ''number'' \<or> out_of_bounds v lo hi
         then validation_error
                (field @ '' must be a number between '' @ decimal lo @ '' and '' @ decimal hi)
         else validateNumeric rest)
      else validateNumeric rest)"

text \<open>
  The code units of a value that is a string. Every use stands behind a test that the
  value is one: a \<open>typeof v !== 'string'\<close> earlier in the same \<open>||\<close> chain, which
  short-circuits, or a \<open>.trim()\<close> that has not thrown.
\<close>

fun str :: "jsval \<Rightarrow> string" where
  "str (JStr s) = s"
| "str v = []"

definition validateChatRequest :: "chatRequest \<Rightarrow> mw_result" where
  "validateChatRequest b =
     (if \<not> truthy (userPrompt b) \<or> typeof (userPrompt b) \<noteq> ''string'' \<or>
         \<not> truthy (JStr (trim (str (userPrompt b)))) then
        validation_error ''User prompt is required and must be a non-empty string''
      else if length (str (userPrompt b)) > 8000 then
        validation_error ''User prompt too long (max 8000 characters)''
      else if truthy (systemPrompt b) \<and>
              (typeof (systemPrompt b) \<noteq> ''string'' \<or> length (str (systemPrompt b)) > 4000) then
        validation_error ''System prompt must be a string with max 4000 characters''
      else if truthy (model b) \<and> model b \<notin> set allowedModels then
        validation_error ''Invalid model specified''
      else
        (case validateNumeric (numericValidations b) of
           Responded r \<Rightarrow> Responded r
         | Next \<Rightarrow>
             if truthy (stopSequence b) \<and> typeof (stopSequence b) \<noteq> ''string'' then
               validation_error ''Stop sequence must be a string''
             else Next))"

section \<open>The chat completion handler\<close>

text \<open>
  What the \<open>try\<close> block can throw: the TypeError of a \<open>.trim()\<close> call on a value that
  is not a string, or the error object the upstream client rejects with, of which the
  \<open>catch\<close> block reads \<open>code\<close>, \<open>name\<close> and \<open>message\<close>.
\<close>

record js_error =
  code :: jsval
  name :: jsval
  message :: jsval

datatype exn = TypeError | Thrown js_error

fun error_code :: "exn \<Rightarrow> jsval" where
  "error_code TypeError = JUndefined"
| "error_code (Thrown e) = code e"

fun error_name :: "exn \<Rightarrow> jsval" where
  "error_name TypeError = JStr ''TypeError''"
| "error_name (Thrown e) = name e"

text \<open>\<open>v.trim()\<close> on any value.\<close>

fun js_trim :: "jsval \<Rightarrow> exn + string" where
  "js_trim (JStr s) = Inr (trim s)"
| "js_trim v = Inl TypeError"

record chat_message =
  role :: string
  content :: string

text \<open>The payload handed to the upstream client; \<open>stop = None\<close> when the property is not set.\<close>

record requestBody =
  rb_model :: jsval
  messages :: "chat_message list"
  rb_temperature :: jsnum
  max_tokens :: jsnum
  presence_penalty :: jsnum
  frequency_penalty :: jsnum
  stop :: "string list option"

text \<open>Prepare messages array, from \<open>systemPrompt\<close> and \<open>userPrompt\<close>.\<close>

definition prepareMessages :: "jsval \<Rightarrow> jsval \<Rightarrow> exn + chat_message list" where
  "prepareMessages sysPrompt usrPrompt =
     (case (if truthy sysPrompt then
              (case js_trim sysPrompt of
                 Inl e \<Rightarrow> Inl e
               | Inr sp \<Rightarrow>
                   Inr (if truthy (JStr sp) then [\<lparr>role = ''system'', content = sp\<rparr>] else []))
            else Inr [])
      of Inl e \<Rightarrow> Inl e
       | Inr msgs \<Rightarrow>
           (case js_trim usrPrompt of
              Inl e \<Rightarrow> Inl e
            | Inr up \<Rightarrow> Inr (msgs @ [\<lparr>role = ''user'', content = up\<rparr>])))"

text \<open>Prepare stop sequences, from \<open>stopSequence\<close>.\<close>

definition prepareStop :: "jsval \<Rightarrow> exn + string list option" where
  "prepareStop stopSeq =
     (if truthy stopSeq then
        (case js_trim stopSeq of
           Inl e \<Rightarrow> Inl e
         | Inr t \<Rightarrow>
             if truthy (JStr t) then
               (let stop = take 4 (filter (\<lambda>s. length s > 0 \<and> length s \<le> 100)
                                    (map trim (split CHR '','' (str stopSeq))))
                in Inr (if length stop = 0 then None else Some stop))
             else Inr None)
      else Inr None)"

text \<open>\<open>Math.max(lo, Math.min(hi, v || d))\<close>\<close>

definition clamp :: "(jsval \<Rightarrow> jsnum) \<Rightarrow> jsnum \<Rightarrow> jsnum \<Rightarrow> jsval \<Rightarrow> jsval \<Rightarrow> jsnum" where
  "clamp toNum lo hi v d = Math_max lo (Math_min hi (ToNumber toNum (js_or v d)))"

text \<open>The handler up to the upstream call: messages, stop sequences, request body.\<close>

definition prepareRequest :: "(jsval \<Rightarrow> jsnum) \<Rightarrow> chatRequest \<Rightarrow> exn + requestBody" where
  "prepareRequest toNum b =
     (case prepareMessages (systemPrompt b) (userPrompt b) of
        Inl e \<Rightarrow> Inl e
      | Inr msgs \<Rightarrow>
          (case prepareStop (stopSequence b) of
             Inl e \<Rightarrow> Inl e
           | Inr st \<Rightarrow>
               Inr \<lparr>rb_model = js_or (model b) (JStr ''gpt-3.5-turbo''),
                    messages = msgs,
                    rb_temperature = clamp toNum (Fin 0) (Fin 2) (temperature b) (JNum (Fin (7 / 10))),
                    max_tokens = clamp toNum (Fin 1) (Fin 4000) (maxTokens b) (JNum (Fin 1000)),
                    presence_penalty = clamp toNum (Fin 0) (Fin 2) (presencePenalty b) (JNum (Fin 0)),
                    frequency_penalty = clamp toNum (Fin 0) (Fin 2) (frequencyPenalty b) (JNum (Fin 0)),
                    stop = st\<rparr>))"

text \<open>
  The completion the upstream client resolves with: the \<open>message?.content\<close> of each
  choice, the usage and the model.
\<close>

record completion =
  choices :: "jsval list"
  usage :: jsval
  completion_model :: jsval

definition error_response :: "nat \<Rightarrow> string \<Rightarrow> string \<Rightarrow> http_response" where
  "error_response st msg ty = \<lparr>status = st, json = [(''error'', JStr msg), (''type'', JStr ty)]\<rparr>"

text \<open>The \<open>catch\<close> block of the handler.\<close>

definition translateError :: "exn \<Rightarrow> http_response" where
  "translateError error =
     (if error_code error = JStr ''insufficient_quota'' then
        error_response 402 ''API quota exceeded. Please check your billing details.'' ''quota_exceeded''
      else if error_code error = JStr ''invalid_api_key'' then
        error_response 401 ''Invalid API key configuration.'' ''invalid_key''
      else if error_code error = JStr ''model_not_found'' then
        error_response 400 ''The specified model is not available.'' ''model_not_found''
      else if error_code error = JStr ''rate_limit_exceeded'' then
        error_response 429 ''Rate limit exceeded. Please try again later.'' ''rate_limit''
      else if error_name error = JStr ''AbortError'' then
        error_response 408 ''Request timeout. Please try again.'' ''timeout''
      else
        error_response 500 ''An error occurred while processing your request'' ''server_error'')"

text \<open>
  The handler: it answers and makes at most one upstream call; the second component
  lists the payloads sent upstream. The upstream client is the parameter \<open>upstream\<close>,
  which resolves with a completion or rejects (on abort after 30 seconds as on any
  other failure) with an error.
\<close>

definition chatHandler ::
  "(jsval \<Rightarrow> jsnum) \<Rightarrow> (requestBody \<Rightarrow> exn + completion) \<Rightarrow> chatRequest
     \<Rightarrow> http_response \<times> requestBody list" where
  "chatHandler toNum upstream b =
     (case prepareRequest toNum b of
        Inl e \<Rightarrow> (translateError e, [])
      | Inr rb \<Rightarrow>
          (case upstream rb of
             Inl e \<Rightarrow> (translateError e, [rb])
           | Inr c \<Rightarrow>
               (\<lparr>status = 200,
                 json = [(''success'', JBool True),
                         (''content'', js_or (case choices c of [] \<Rightarrow> JUndefined | x # _ \<Rightarrow> x)
                                             (JStr ''No response generated'')),
                         (''usage'', usage c),
                         (''model'', completion_model c)]\<rparr>, [rb])))"

text \<open>
  \<open>app.post(path, middleware, handler)\<close>: the handler runs only if the middleware calls
  \<open>next()\<close>; otherwise the middleware's answer stands and nothing is sent upstream.
\<close>

definition route ::
  "(chatRequest \<Rightarrow> mw_result) \<Rightarrow> (chatRequest \<Rightarrow> http_response \<times> requestBody list)
     \<Rightarrow> chatRequest \<Rightarrow> http_response \<times> requestBody list" where
  "route middleware handler b =
     (case middleware b of Responded r \<Rightarrow> (r, []) | Next \<Rightarrow> handler b)"

definition post_api_chat ::
  "(jsval \<Rightarrow> jsnum) \<Rightarrow> (requestBody \<Rightarrow> exn + completion) \<Rightarrow> chatRequest
     \<Rightarrow> http_response \<times> requestBody list" where
  "post_api_chat toNum upstream = route validateChatRequest (chatHandler toNum upstream)"

section \<open>The first server (server/index.js)\<close>

text \<open>
  The \<open>catch\<close> block of the server without validation middleware. Its last branch
  answers with \<open>error.message || '...'\<close>. It reads \<open>code\<close> and \<open>message\<close> of the
  error only.
\<close>

definition translateError_index :: "js_error \<Rightarrow> http_response" where
  "translateError_index error =
     (if code error = JStr ''insufficient_quota'' then
        error_response 402 ''OpenAI API quota exceeded. Please check your billing details.''
          ''quota_exceeded''
      else if code error = JStr ''invalid_api_key'' then
        error_response 401 ''Invalid OpenAI API key. Please check your configuration.''
          ''invalid_key''
      else if code error = JStr ''model_not_found'' then
        error_response 400 ''The specified model is not available.'' ''model_not_found''
      else if code error = JStr ''rate_limit_exceeded'' then
        error_response 429 ''Rate limit exceeded. Please try again later.'' ''rate_limit''
      else
        \<lparr>status = 500,
         json = [(''error'', js_or (message error)
                               (JStr ''An error occurred while processing your request'')),
                 (''type'', JStr ''server_error'')]\<rparr>)"

section \<open>Properties of values\<close>

text \<open>A number lying within a bound: finite, and between \<open>lo\<close> and \<open>hi\<close>.\<close>

fun number_within :: "jsval \<Rightarrow> rat \<Rightarrow> rat \<Rightarrow> bool" where
  "number_within (JNum (Fin q)) lo hi = (lo \<le> q \<and> q \<le> hi)"
| "number_within v lo hi = False"

text \<open>The property \<open>type\<close> of the body of an answer, as a client reads it.\<close>

definition response_type :: "http_response \<Rightarrow> jsval" where
  "response_type r = (case map_of (json r) ''type'' of None \<Rightarrow> JUndefined | Some v \<Rightarrow> v)"

text \<open>
  The stop sequences in the words of the specification: split on commas, trim each
  token, drop the empty ones, drop those longer than 100 characters, keep at most the
  first 4; no stop field when nothing is left.
\<close>

definition stop_sequences_spec :: "string \<Rightarrow> string list option" where
  "stop_sequences_spec s =
     (let tokens = split CHR '','' s;
          trimmed = map trim tokens;
          nonempty = filter (\<lambda>t. t \<noteq> []) trimmed;
          short = filter (\<lambda>t. \<not> 100 < length t) nonempty;
          kept = take 4 short
      in if kept = [] then None else Some kept)"

text \<open>
  A value as \<open>JSON.parse\<close> returns it: JSON has no literal for NaN and none for
  \<open>undefined\<close> (a number too large for a double is parsed as an infinity).
\<close>

fun json_value :: "jsval \<Rightarrow> bool" where
  "json_value JUndefined = False"
| "json_value JNull = True"
| "json_value (JBool b) = True"
| "json_value (JNum n) = (n \<noteq> NaN)"
| "json_value (JStr s) = True"
| "json_value (JArr vs) = list_all json_value vs"
| "json_value (JObj ps) = list_all (\<lambda>p. json_value (snd p)) ps"

text \<open>
  A body that \<open>express.json\<close> has parsed from the text of a request: each of the
  eight properties is absent or a JSON value.
\<close>

definition json_body :: "chatRequest \<Rightarrow> bool" where
  "json_body b =
     list_all (\<lambda>v. v = JUndefined \<or> json_value v)
       [model b, systemPrompt b, userPrompt b, temperature b, maxTokens b,
        presencePenalty b, frequencyPenalty b, stopSequence b]"

text \<open>
  What the upstream client rejects with when the signal passed to it is aborted, as
  the 30 second timer of the handler does: the client's own \<open>APIUserAbortError\<close>, an
  \<open>Error\<close> subclass that sets neither \<open>name\<close> nor \<open>code\<close>, so that \<open>name\<close> is the
  inherited \<open>'Error'\<close>.
\<close>

definition APIUserAbortError :: exn where
  "APIUserAbortError =
     Thrown \<lparr>code = JUndefined, name = JStr ''Error'', message = JStr ''Request was aborted.''\<rparr>"

section \<open>Sample requests\<close>

text \<open>The body \<open>{}\<close>: every property absent.\<close>

definition empty_body :: chatRequest where
  "empty_body = \<lparr>model = JUndefined, systemPrompt = JUndefined, userPrompt = JUndefined,
     temperature = JUndefined, maxTokens = JUndefined, presencePenalty = JUndefined,
     frequencyPenalty = JUndefined, stopSequence = JUndefined\<rparr>"

section \<open>Validation failures\<close>

lemma validateNumeric_cases:
  "validateNumeric vs = Next \<or> (\<exists>msg. validateNumeric vs = validation_error msg)"
  by (induction vs rule: validateNumeric.induct) (simp_all add: validation_error_def)

lemma validateChatRequest_cases:
  "validateChatRequest b = Next \<or> (\<exists>msg. validateChatRequest b = validation_error msg)"
  using validateNumeric_cases [of "numericValidations b"]
  unfolding validateChatRequest_def validation_error_def
  by (cases "validateNumeric (numericValidations b)") simp_all

lemma trim_Nil_iff: "trim s = [] \<longleftrightarrow> (\<forall>c\<in>set s. isWhiteSpace c)"
proof
  assume "trim s = []"
  then have "\<forall>c\<in>set (dropWhile isWhiteSpace s). isWhiteSpace c"
    by (simp add: trim_def)
  then have "dropWhile isWhiteSpace s = []"
    by (metis hd_dropWhile hd_in_set)
  then show "\<forall>c\<in>set s. isWhiteSpace c"
    by simp
next
  assume "\<forall>c\<in>set s. isWhiteSpace c"
  then have "dropWhile isWhiteSpace s = []" by (simp add: dropWhile_eq_Nil_conv)
  then show "trim s = []"
    unfolding trim_def by (simp del: dropWhile_eq_Nil_conv)
qed

lemma userPrompt_required:
  assumes "userPrompt b = JUndefined \<or> typeof (userPrompt b) \<noteq> ''string'' \<or>
      (\<exists>s. userPrompt b = JStr s \<and> (\<forall>c\<in>set s. isWhiteSpace c))"
  shows "validateChatRequest b =
           validation_error ''User prompt is required and must be a non-empty string''"
proof -
  have "\<not> truthy (userPrompt b) \<or> typeof (userPrompt b) \<noteq> ''string'' \<or>
         \<not> truthy (JStr (trim (str (userPrompt b))))"
    using assms by (auto simp: trim_Nil_iff)
  then show ?thesis
    unfolding validateChatRequest_def by (simp only: if_True)
qed

text \<open>
  C1. A request that the validation middleware does not pass on is answered with
  status 400 and type \<open>validation_error\<close>; whatever the handler, it is not run, and no
  payload is sent upstream. A \<open>userPrompt\<close> that is absent, not a string, or made of
  white space only is such a request.
\<close>

theorem validation_failure_answers_400_without_upstream_call:
  "(validateChatRequest b \<noteq> Next \<longrightarrow>
      (\<exists>msg. validateChatRequest b = validation_error msg \<and>
         (\<forall>handler. route validateChatRequest handler b =
            (\<lparr>status = 400,
              json = [(''error'', JStr msg), (''type'', JStr ''validation_error'')]\<rparr>, [])) \<and>
         post_api_chat toNum upstream b =
            (\<lparr>status = 400,
              json = [(''error'', JStr msg), (''type'', JStr ''validation_error'')]\<rparr>, []))) \<and>
   (userPrompt b = JUndefined \<or> typeof (userPrompt b) \<noteq> ''string'' \<or>
      (\<exists>s. userPrompt b = JStr s \<and> (\<forall>c\<in>set s. isWhiteSpace c))
    \<longrightarrow> validateChatRequest b \<noteq> Next)"
proof (intro conjI impI)
  assume "validateChatRequest b \<noteq> Next"
  then obtain msg where m: "validateChatRequest b = validation_error msg"
    using validateChatRequest_cases [of b] by auto
  have "\<forall>handler. route validateChatRequest handler b =
            (\<lparr>status = 400,
              json = [(''error'', JStr msg), (''type'', JStr ''validation_error'')]\<rparr>, [])"
    by (simp add: route_def m validation_error_def)
  then show "\<exists>msg. validateChatRequest b = validation_error msg \<and>
         (\<forall>handler. route validateChatRequest handler b =
            (\<lparr>status = 400,
              json = [(''error'', JStr msg), (''type'', JStr ''validation_error'')]\<rparr>, [])) \<and>
         post_api_chat toNum upstream b =
            (\<lparr>status = 400,
              json = [(''error'', JStr msg), (''type'', JStr ''validation_error'')]\<rparr>, [])"
    using m unfolding post_api_chat_def by blast
next
  assume "userPrompt b = JUndefined \<or> typeof (userPrompt b) \<noteq> ''string'' \<or>
      (\<exists>s. userPrompt b = JStr s \<and> (\<forall>c\<in>set s. isWhiteSpace c))"
  then show "validateChatRequest b \<noteq> Next"
    by (simp add: userPrompt_required validation_error_def)
qed

theorem validation_failure_witness:
  "(\<exists>s. userPrompt (empty_body\<lparr>userPrompt := JStr ''   ''\<rparr>) = JStr s \<and>
        (\<forall>c\<in>set s. isWhiteSpace c)) \<and>
   (\<exists>msg. post_api_chat (\<lambda>v. NaN) (\<lambda>rb. Inl TypeError)
            (empty_body\<lparr>userPrompt := JStr ''   ''\<rparr>) =
          (\<lparr>status = 400,
            json = [(''error'', JStr msg), (''type'', JStr ''validation_error'')]\<rparr>, []))"
proof -
  have h: "\<exists>s. userPrompt (empty_body\<lparr>userPrompt := JStr ''   ''\<rparr>) = JStr s \<and>
        (\<forall>c\<in>set s. isWhiteSpace c)"
    by (simp add: isWhiteSpace_def)
  show ?thesis
    using h validation_failure_answers_400_without_upstream_call
      [of "empty_body\<lparr>userPrompt := JStr ''   ''\<rparr>" "\<lambda>v. NaN" "\<lambda>rb. Inl TypeError"]
    by blast
qed

section \<open>Numeric parameters\<close>

lemma clamp_absent:
  "\<not> truthy v \<Longrightarrow> clamp toNum lo hi v (JNum d) = Math_max lo (Math_min hi d)"
  by (simp add: clamp_def js_or_def)

lemma clamp_number:
  "n \<noteq> NaN \<Longrightarrow> n \<noteq> Fin 0 \<Longrightarrow>
     clamp toNum lo hi (JNum n) d = Math_max lo (Math_min hi n)"
  by (simp add: clamp_def js_or_def)

lemma Math_clamp_in_range:
  assumes "lo \<le> hi" and "n \<noteq> NaN"
  shows "\<exists>q. Math_max (Fin lo) (Math_min (Fin hi) n) = Fin q \<and> lo \<le> q \<and> q \<le> hi"
  using assms by (cases n) (auto simp: Math_max_def Math_min_def)

lemma clamp_in_range:
  assumes "v = JUndefined \<or> typeof v = ''number''" and "lo \<le> d" and "d \<le> hi"
  shows "\<exists>q. clamp toNum (Fin lo) (Fin hi) v (JNum (Fin d)) = Fin q \<and> lo \<le> q \<and> q \<le> hi"
proof (cases "truthy v")
  case True
  with assms(1) obtain n where v: "v = JNum n" and n: "n \<noteq> NaN" "n \<noteq> Fin 0"
    by (cases v) auto
  from assms(2,3) have "lo \<le> hi" by simp
  then show ?thesis
    using Math_clamp_in_range [of lo hi n] n by (simp add: v clamp_number)
next
  case False
  from assms(2,3) have "lo \<le> hi" by simp
  then show ?thesis
    using Math_clamp_in_range [of lo hi "Fin d"] assms(2,3) False
    by (simp add: clamp_absent)
qed

lemma prepareRequest_fields:
  assumes "prepareRequest toNum b = Inr rb"
  shows "rb_model rb = js_or (model b) (JStr ''gpt-3.5-turbo'')"
    and "rb_temperature rb = clamp toNum (Fin 0) (Fin 2) (temperature b) (JNum (Fin (7 / 10)))"
    and "max_tokens rb = clamp toNum (Fin 1) (Fin 4000) (maxTokens b) (JNum (Fin 1000))"
    and "presence_penalty rb = clamp toNum (Fin 0) (Fin 2) (presencePenalty b) (JNum (Fin 0))"
    and "frequency_penalty rb = clamp toNum (Fin 0) (Fin 2) (frequencyPenalty b) (JNum (Fin 0))"
    and "prepareMessages (systemPrompt b) (userPrompt b) = Inr (messages rb)"
    and "prepareStop (stopSequence b) = Inr (stop rb)"
  using assms by (auto simp: prepareRequest_def split: sum.splits)

text \<open>
  Whatever numbers reach the request builder (each numeric property absent or of type
  number: in or out of range, infinite, NaN), the payload carries finite values within
  the bounds.
\<close>

lemma numbers_forwarded_within_bounds:
  assumes "prepareRequest toNum b = Inr rb"
    and "temperature b = JUndefined \<or> typeof (temperature b) = ''number''"
    and "maxTokens b = JUndefined \<or> typeof (maxTokens b) = ''number''"
    and "presencePenalty b = JUndefined \<or> typeof (presencePenalty b) = ''number''"
    and "frequencyPenalty b = JUndefined \<or> typeof (frequencyPenalty b) = ''number''"
  shows "(\<exists>t. rb_temperature rb = Fin t \<and> 0 \<le> t \<and> t \<le> 2) \<and>
         (\<exists>m. max_tokens rb = Fin m \<and> 1 \<le> m \<and> m \<le> 4000) \<and>
         (\<exists>p. presence_penalty rb = Fin p \<and> 0 \<le> p \<and> p \<le> 2) \<and>
         (\<exists>f. frequency_penalty rb = Fin f \<and> 0 \<le> f \<and> f \<le> 2)"
proof (intro conjI)
  show "\<exists>t. rb_temperature rb = Fin t \<and> 0 \<le> t \<and> t \<le> 2"
    using clamp_in_range [OF assms(2), of 0 "7 / 10" 2 toNum]
    by (simp add: prepareRequest_fields(2) [OF assms(1)])
  show "\<exists>m. max_tokens rb = Fin m \<and> 1 \<le> m \<and> m \<le> 4000"
    using clamp_in_range [OF assms(3), of 1 1000 4000 toNum]
    by (simp add: prepareRequest_fields(3) [OF assms(1)])
  show "\<exists>p. presence_penalty rb = Fin p \<and> 0 \<le> p \<and> p \<le> 2"
    using clamp_in_range [OF assms(4), of 0 0 2 toNum]
    by (simp add: prepareRequest_fields(4) [OF assms(1)])
  show "\<exists>f. frequency_penalty rb = Fin f \<and> 0 \<le> f \<and> f \<le> 2"
    using clamp_in_range [OF assms(5), of 0 0 2 toNum]
    by (simp add: prepareRequest_fields(5) [OF assms(1)])
qed

lemma trim_hi: "trim ''hi'' = ''hi''"
  by (simp add: trim_def isWhiteSpace_def)

lemma validate_hi: "validateChatRequest (empty_body\<lparr>userPrompt := JStr ''hi''\<rparr>) = Next"
  by (simp add: validateChatRequest_def empty_body_def numericValidations_def trim_hi)

lemma prepare_hi:
  "prepareMessages JUndefined (JStr ''hi'') = Inr [\<lparr>role = ''user'', content = ''hi''\<rparr>]"
  "prepareStop JUndefined = Inr None"
  by (simp_all add: prepareMessages_def prepareStop_def trim_hi)

lemma numbers_forwarded_within_bounds_example:
  "prepareRequest (\<lambda>v. NaN)
       (empty_body\<lparr>userPrompt := JStr ''hi'', temperature := JNum (Fin 5),
          maxTokens := JNum (Fin 999999), presencePenalty := JNum PosInf,
          frequencyPenalty := JNum NegInf\<rparr>) =
     Inr \<lparr>rb_model = JStr ''gpt-3.5-turbo'',
          messages = [\<lparr>role = ''user'', content = ''hi''\<rparr>],
          rb_temperature = Fin 2, max_tokens = Fin 4000, presence_penalty = Fin 2,
          frequency_penalty = Fin 0, stop = None\<rparr> \<and>
   (\<exists>t. Fin 2 = Fin t \<and> 0 \<le> t \<and> t \<le> 2) \<and>
   (\<exists>m. Fin 4000 = Fin m \<and> 1 \<le> m \<and> m \<le> 4000) \<and>
   (\<exists>p. Fin 2 = Fin p \<and> 0 \<le> p \<and> p \<le> 2) \<and>
   (\<exists>f. Fin 0 = Fin f \<and> 0 \<le> f \<and> f \<le> 2)"
proof -
  have h: "prepareRequest (\<lambda>v. NaN)
       (empty_body\<lparr>userPrompt := JStr ''hi'', temperature := JNum (Fin 5),
          maxTokens := JNum (Fin 999999), presencePenalty := JNum PosInf,
          frequencyPenalty := JNum NegInf\<rparr>) =
     Inr \<lparr>rb_model = JStr ''gpt-3.5-turbo'',
          messages = [\<lparr>role = ''user'', content = ''hi''\<rparr>],
          rb_temperature = Fin 2, max_tokens = Fin 4000, presence_penalty = Fin 2,
          frequency_penalty = Fin 0, stop = None\<rparr>"
    by (simp add: prepareRequest_def prepare_hi empty_body_def
          clamp_def js_or_def Math_max_def Math_min_def)
  show ?thesis
    using h numbers_forwarded_within_bounds [OF h] by simp
qed

text \<open>
  C2. The forwarded value is not the clamped input for every present parameter: a
  \<open>temperature\<close> of 0 passes validation and is forwarded as the default 0.7, since
  \<open>||\<close> takes 0 for absent; a \<open>maxTokens\<close> of 0 reaching the handler is forwarded as
  1000, not 1.
\<close>

theorem falsy_zero_replaced_by_default:
  "validateChatRequest (empty_body\<lparr>userPrompt := JStr ''hi'', temperature := JNum (Fin 0)\<rparr>) = Next \<and>
   map rb_temperature
     (snd (post_api_chat toNum (\<lambda>rb. Inl TypeError)
        (empty_body\<lparr>userPrompt := JStr ''hi'', temperature := JNum (Fin 0)\<rparr>))) = [Fin (7 / 10)] \<and>
   map max_tokens
     (snd (chatHandler toNum (\<lambda>rb. Inl TypeError)
        (empty_body\<lparr>userPrompt := JStr ''hi'', maxTokens := JNum (Fin 0)\<rparr>))) = [Fin 1000]"
proof -
  have v: "validateChatRequest (empty_body\<lparr>userPrompt := JStr ''hi'', temperature := JNum (Fin 0)\<rparr>) = Next"
    by (simp add: validateChatRequest_def empty_body_def numericValidations_def trim_hi num_gt_def)
  have t: "map rb_temperature
     (snd (chatHandler toNum (\<lambda>rb. Inl TypeError)
        (empty_body\<lparr>userPrompt := JStr ''hi'', temperature := JNum (Fin 0)\<rparr>))) = [Fin (7 / 10)]"
    by (simp add: chatHandler_def prepareRequest_def prepare_hi empty_body_def
          clamp_def js_or_def Math_max_def Math_min_def)
  have m: "map max_tokens
     (snd (chatHandler toNum (\<lambda>rb. Inl TypeError)
        (empty_body\<lparr>userPrompt := JStr ''hi'', maxTokens := JNum (Fin 0)\<rparr>))) = [Fin 1000]"
    by (simp add: chatHandler_def prepareRequest_def prepare_hi empty_body_def
          clamp_def js_or_def Math_max_def Math_min_def)
  show ?thesis
    using v t m by (simp add: post_api_chat_def route_def)
qed

theorem falsy_zero_replaced_by_default_witness:
  "validateChatRequest (empty_body\<lparr>userPrompt := JStr ''hi'', temperature := JNum (Fin 0)\<rparr>) = Next \<and>
   map rb_temperature
     (snd (post_api_chat (\<lambda>v. NaN) (\<lambda>rb. Inl TypeError)
        (empty_body\<lparr>userPrompt := JStr ''hi'', temperature := JNum (Fin 0)\<rparr>))) = [Fin (7 / 10)] \<and>
   map max_tokens
     (snd (chatHandler (\<lambda>v. NaN) (\<lambda>rb. Inl TypeError)
        (empty_body\<lparr>userPrompt := JStr ''hi'', maxTokens := JNum (Fin 0)\<rparr>))) = [Fin 1000]"
  by (rule falsy_zero_replaced_by_default)

lemma clamp_examples:
  "clamp toNum (Fin 0) (Fin 2) (JNum (Fin 5)) (JNum (Fin (7 / 10))) = Fin 2"
  "clamp toNum (Fin 0) (Fin 2) (JNum (Fin (- 1))) (JNum (Fin (7 / 10))) = Fin 0"
  "clamp toNum (Fin 1) (Fin 4000) (JNum (Fin 999999)) (JNum (Fin 1000)) = Fin 4000"
  "clamp toNum (Fin 0) (Fin 2) JUndefined (JNum (Fin (7 / 10))) = Fin (7 / 10)"
  "clamp toNum (Fin 1) (Fin 4000) JUndefined (JNum (Fin 1000)) = Fin 1000"
  "clamp toNum (Fin 0) (Fin 2) JUndefined (JNum (Fin 0)) = Fin 0"
  by (simp_all add: clamp_def js_or_def Math_max_def Math_min_def)


lemma NaN_not_out_of_bounds [simp]: "\<not> out_of_bounds (JNum NaN) lo hi"
  by (simp add: num_gt_def)

lemma validateChatRequest_cong:
  assumes "userPrompt b = userPrompt b'" and "systemPrompt b = systemPrompt b'"
    and "model b = model b'" and "stopSequence b = stopSequence b'"
    and "validateNumeric (numericValidations b) = validateNumeric (numericValidations b')"
  shows "validateChatRequest b = validateChatRequest b'"
  unfolding validateChatRequest_def assms by (rule refl)

lemma validateNumeric_Cons_cong:
  assumes "validateNumeric rest = validateNumeric rest'"
  shows "validateNumeric (e # rest) = validateNumeric (e # rest')"
proof -
  obtain field v lo hi where e: "e = (field, v, lo, hi)"
    by (cases e) auto
  show ?thesis
    unfolding e validateNumeric.simps assms by (rule refl)
qed

lemma validateNumeric_skip:
  "validateNumeric ((field, JNum NaN, lo, hi) # rest) = validateNumeric rest"
  "validateNumeric ((field, JUndefined, lo, hi) # rest) = validateNumeric rest"
  by (simp_all add: num_gt_def)

lemma numericValidations_update:
  "numericValidations (b\<lparr>temperature := x\<rparr>) =
     (''temperature'', x, 0, 2) # tl (numericValidations b)"
  "numericValidations (b\<lparr>maxTokens := x\<rparr>) =
     (''temperature'', temperature b, 0, 2) # (''maxTokens'', x, 1, 4000) #
       tl (tl (numericValidations b))"
  "numericValidations (b\<lparr>presencePenalty := x\<rparr>) =
     (''temperature'', temperature b, 0, 2) # (''maxTokens'', maxTokens b, 1, 4000) #
       (''presencePenalty'', x, 0, 2) # tl (tl (tl (numericValidations b)))"
  "numericValidations (b\<lparr>frequencyPenalty := x\<rparr>) =
     (''temperature'', temperature b, 0, 2) # (''maxTokens'', maxTokens b, 1, 4000) #
       (''presencePenalty'', presencePenalty b, 0, 2) # (''frequencyPenalty'', x, 0, 2) #
       tl (tl (tl (tl (numericValidations b))))"
  by (simp_all add: numericValidations_def)

lemma validateNumeric_NaN:
  "validateNumeric (numericValidations (b\<lparr>temperature := JNum NaN\<rparr>)) =
     validateNumeric (numericValidations (b\<lparr>temperature := JUndefined\<rparr>))"
  "validateNumeric (numericValidations (b\<lparr>maxTokens := JNum NaN\<rparr>)) =
     validateNumeric (numericValidations (b\<lparr>maxTokens := JUndefined\<rparr>))"
  "validateNumeric (numericValidations (b\<lparr>presencePenalty := JNum NaN\<rparr>)) =
     validateNumeric (numericValidations (b\<lparr>presencePenalty := JUndefined\<rparr>))"
  "validateNumeric (numericValidations (b\<lparr>frequencyPenalty := JNum NaN\<rparr>)) =
     validateNumeric (numericValidations (b\<lparr>frequencyPenalty := JUndefined\<rparr>))"
  unfolding numericValidations_update
  by (simp only: validateNumeric_skip,
      (rule validateNumeric_Cons_cong)+, simp only: validateNumeric_skip,
      (rule validateNumeric_Cons_cong)+, simp only: validateNumeric_skip,
      (rule validateNumeric_Cons_cong)+, simp only: validateNumeric_skip)

text \<open>
  C9. A numeric property that is NaN is treated by the validation middleware as if it
  were absent: the verdict is the same, so the request is accepted when its other
  properties are valid. The request builder forwards the default of that property:
  0.7, 1000, 0 and 0.
\<close>

theorem NaN_passes_validation_and_gets_default:
  "validateChatRequest (b\<lparr>temperature := JNum NaN\<rparr>) =
     validateChatRequest (b\<lparr>temperature := JUndefined\<rparr>) \<and>
   validateChatRequest (b\<lparr>maxTokens := JNum NaN\<rparr>) =
     validateChatRequest (b\<lparr>maxTokens := JUndefined\<rparr>) \<and>
   validateChatRequest (b\<lparr>presencePenalty := JNum NaN\<rparr>) =
     validateChatRequest (b\<lparr>presencePenalty := JUndefined\<rparr>) \<and>
   validateChatRequest (b\<lparr>frequencyPenalty := JNum NaN\<rparr>) =
     validateChatRequest (b\<lparr>frequencyPenalty := JUndefined\<rparr>) \<and>
   (prepareRequest toNum b = Inr rb \<longrightarrow>
      (temperature b = JNum NaN \<longrightarrow> rb_temperature rb = Fin (7 / 10)) \<and>
      (maxTokens b = JNum NaN \<longrightarrow> max_tokens rb = Fin 1000) \<and>
      (presencePenalty b = JNum NaN \<longrightarrow> presence_penalty rb = Fin 0) \<and>
      (frequencyPenalty b = JNum NaN \<longrightarrow> frequency_penalty rb = Fin 0))"
proof (intro conjI impI)
  show "validateChatRequest (b\<lparr>temperature := JNum NaN\<rparr>) =
     validateChatRequest (b\<lparr>temperature := JUndefined\<rparr>)"
    by (rule validateChatRequest_cong) (simp_all add: validateNumeric_NaN)
  show "validateChatRequest (b\<lparr>maxTokens := JNum NaN\<rparr>) =
     validateChatRequest (b\<lparr>maxTokens := JUndefined\<rparr>)"
    by (rule validateChatRequest_cong) (simp_all add: validateNumeric_NaN)
  show "validateChatRequest (b\<lparr>presencePenalty := JNum NaN\<rparr>) =
     validateChatRequest (b\<lparr>presencePenalty := JUndefined\<rparr>)"
    by (rule validateChatRequest_cong) (simp_all add: validateNumeric_NaN)
  show "validateChatRequest (b\<lparr>frequencyPenalty := JNum NaN\<rparr>) =
     validateChatRequest (b\<lparr>frequencyPenalty := JUndefined\<rparr>)"
    by (rule validateChatRequest_cong) (simp_all add: validateNumeric_NaN)
next
  assume p: "prepareRequest toNum b = Inr rb" and n: "temperature b = JNum NaN"
  show "rb_temperature rb = Fin (7 / 10)"
    by (simp add: prepareRequest_fields(2) [OF p] n clamp_absent Math_max_def Math_min_def)
next
  assume p: "prepareRequest toNum b = Inr rb" and n: "maxTokens b = JNum NaN"
  show "max_tokens rb = Fin 1000"
    by (simp add: prepareRequest_fields(3) [OF p] n clamp_absent Math_max_def Math_min_def)
next
  assume p: "prepareRequest toNum b = Inr rb" and n: "presencePenalty b = JNum NaN"
  show "presence_penalty rb = Fin 0"
    by (simp add: prepareRequest_fields(4) [OF p] n clamp_absent Math_max_def Math_min_def)
next
  assume p: "prepareRequest toNum b = Inr rb" and n: "frequencyPenalty b = JNum NaN"
  show "frequency_penalty rb = Fin 0"
    by (simp add: prepareRequest_fields(5) [OF p] n clamp_absent Math_max_def Math_min_def)
qed


theorem NaN_temperature_witness:
  "validateChatRequest (empty_body\<lparr>userPrompt := JStr ''hi'', temperature := JNum NaN\<rparr>) = Next \<and>
   prepareRequest (\<lambda>v. NaN) (empty_body\<lparr>userPrompt := JStr ''hi'', temperature := JNum NaN\<rparr>) =
     Inr \<lparr>rb_model = JStr ''gpt-3.5-turbo'',
          messages = [\<lparr>role = ''user'', content = ''hi''\<rparr>],
          rb_temperature = Fin (7 / 10), max_tokens = Fin 1000, presence_penalty = Fin 0,
          frequency_penalty = Fin 0, stop = None\<rparr>"
proof -
  let ?rb = "\<lparr>rb_model = JStr ''gpt-3.5-turbo'',
          messages = [\<lparr>role = ''user'', content = ''hi''\<rparr>],
          rb_temperature = clamp (\<lambda>v. NaN) (Fin 0) (Fin 2) (JNum NaN) (JNum (Fin (7 / 10))),
          max_tokens = Fin 1000, presence_penalty = Fin 0,
          frequency_penalty = Fin 0, stop = None\<rparr>"
  have p: "prepareRequest (\<lambda>v. NaN)
             (empty_body\<lparr>userPrompt := JStr ''hi'', temperature := JNum NaN\<rparr>) = Inr ?rb"
    by (simp add: prepareRequest_def prepare_hi empty_body_def clamp_examples js_or_def)
  have t: "temperature (empty_body\<lparr>userPrompt := JStr ''hi'', temperature := JNum NaN\<rparr>) = JNum NaN"
    by simp
  have u: "validateChatRequest (empty_body\<lparr>userPrompt := JStr ''hi'', temperature := JUndefined\<rparr>) = Next"
    using validate_hi by (simp add: empty_body_def)
  have "rb_temperature ?rb = Fin (7 / 10)"
    using p t NaN_passes_validation_and_gets_default
      [of "empty_body\<lparr>userPrompt := JStr ''hi'', temperature := JNum NaN\<rparr>" "\<lambda>v. NaN" ?rb]
    by blast
  then have r: "clamp (\<lambda>v. NaN) (Fin 0) (Fin 2) (JNum NaN) (JNum (Fin (7 / 10))) = Fin (7 / 10)"
    by simp
  have "validateChatRequest (empty_body\<lparr>userPrompt := JStr ''hi'', temperature := JNum NaN\<rparr>) = Next"
    using u NaN_passes_validation_and_gets_default [of "empty_body\<lparr>userPrompt := JStr ''hi''\<rparr>"]
    by simp
  then show ?thesis
    using p r by simp
qed

section \<open>Accepted requests\<close>

lemma if_error_Next_iff:
  "((if c then validation_error msg else x) = Next) = (\<not> c \<and> x = Next)"
  by (simp add: validation_error_def)

lemma case_result_Next_iff:
  "((case r of Responded a \<Rightarrow> Responded a | Next \<Rightarrow> x) = Next) = (r = Next \<and> x = Next)"
  by (cases r) simp_all

lemma validateChatRequest_Next_iff:
  "validateChatRequest b = Next \<longleftrightarrow>
     (truthy (userPrompt b) \<and> typeof (userPrompt b) = ''string'' \<and>
        trim (str (userPrompt b)) \<noteq> [] \<and> length (str (userPrompt b)) \<le> 8000) \<and>
     (truthy (systemPrompt b) \<longrightarrow>
        typeof (systemPrompt b) = ''string'' \<and> length (str (systemPrompt b)) \<le> 4000) \<and>
     (truthy (model b) \<longrightarrow> model b \<in> set allowedModels) \<and>
     validateNumeric (numericValidations b) = Next \<and>
     (truthy (stopSequence b) \<longrightarrow> typeof (stopSequence b) = ''string'')"
  unfolding validateChatRequest_def if_error_Next_iff case_result_Next_iff
  by (simp add: not_less) blast

lemma typeof_string_iff: "typeof v = ''string'' \<longleftrightarrow> (\<exists>s. v = JStr s)"
  by (cases v) simp_all

lemma typeof_number_iff: "typeof v = ''number'' \<longleftrightarrow> (\<exists>n. v = JNum n)"
  by (cases v) simp_all

lemma entry_passes_iff:
  "v = JUndefined \<or> typeof v = ''number'' \<and> \<not> out_of_bounds v lo hi \<longleftrightarrow>
     v = JUndefined \<or> v = JNum NaN \<or> number_within v (of_nat lo) (of_nat hi)"
proof (cases v)
  case (JNum n)
  then show ?thesis by (cases n) (auto simp: num_gt_def)
qed simp_all

lemma validateNumeric_Cons_Next_iff:
  "validateNumeric ((field, v, lo, hi) # rest) = Next \<longleftrightarrow>
     (v = JUndefined \<or> v = JNum NaN \<or> number_within v (of_nat lo) (of_nat hi)) \<and>
     validateNumeric rest = Next"
proof -
  have "validateNumeric ((field, v, lo, hi) # rest) = Next \<longleftrightarrow>
          (v = JUndefined \<or> typeof v = ''number'' \<and> \<not> out_of_bounds v lo hi) \<and>
          validateNumeric rest = Next"
    by (simp add: validation_error_def)
  then show ?thesis
    by (simp only: entry_passes_iff)
qed

lemma validateNumeric_Next_iff:
  "validateNumeric (numericValidations b) = Next \<longleftrightarrow>
     (temperature b = JUndefined \<or> temperature b = JNum NaN \<or> number_within (temperature b) 0 2) \<and>
     (maxTokens b = JUndefined \<or> maxTokens b = JNum NaN \<or> number_within (maxTokens b) 1 4000) \<and>
     (presencePenalty b = JUndefined \<or> presencePenalty b = JNum NaN \<or>
        number_within (presencePenalty b) 0 2) \<and>
     (frequencyPenalty b = JUndefined \<or> frequencyPenalty b = JNum NaN \<or>
        number_within (frequencyPenalty b) 0 2)"
  unfolding numericValidations_def validateNumeric_Cons_Next_iff
  by simp

lemma json_body_numbers:
  assumes "json_body b"
  shows "temperature b \<noteq> JNum NaN" "maxTokens b \<noteq> JNum NaN"
    "presencePenalty b \<noteq> JNum NaN" "frequencyPenalty b \<noteq> JNum NaN"
proof -
  have "temperature b = JUndefined \<or> json_value (temperature b)"
    using assms by (simp add: json_body_def)
  then show "temperature b \<noteq> JNum NaN" by auto
  have "maxTokens b = JUndefined \<or> json_value (maxTokens b)"
    using assms by (simp add: json_body_def)
  then show "maxTokens b \<noteq> JNum NaN" by auto
  have "presencePenalty b = JUndefined \<or> json_value (presencePenalty b)"
    using assms by (simp add: json_body_def)
  then show "presencePenalty b \<noteq> JNum NaN" by auto
  have "frequencyPenalty b = JUndefined \<or> json_value (frequencyPenalty b)"
    using assms by (simp add: json_body_def)
  then show "frequencyPenalty b \<noteq> JNum NaN" by auto
qed

lemma validation_failure_at_endpoint:
  assumes "validateChatRequest b = validation_error msg"
  shows "post_api_chat toNum upstream b =
           (\<lparr>status = 400,
             json = [(''error'', JStr msg), (''type'', JStr ''validation_error'')]\<rparr>, [])"
  using assms by (simp add: post_api_chat_def route_def validation_error_def)

text \<open>
  C3. On a body parsed from JSON, the validation middleware accepts a request only if
  each numeric property that is present is a number within its bound. A present value
  that is not of type number or lies outside the bound (the infinities included) is
  rejected outright: the endpoint answers 400 with type \<open>validation_error\<close> and sends
  nothing upstream, so no clamped value leaves validation.
\<close>

theorem present_number_accepted_only_within_bound:
  assumes "json_body b"
  shows
  "(validateChatRequest b = Next \<longrightarrow>
      (temperature b = JUndefined \<or> number_within (temperature b) 0 2) \<and>
      (maxTokens b = JUndefined \<or> number_within (maxTokens b) 1 4000) \<and>
      (presencePenalty b = JUndefined \<or> number_within (presencePenalty b) 0 2) \<and>
      (frequencyPenalty b = JUndefined \<or> number_within (frequencyPenalty b) 0 2)) \<and>
   ((temperature b \<noteq> JUndefined \<and> \<not> number_within (temperature b) 0 2) \<or>
    (maxTokens b \<noteq> JUndefined \<and> \<not> number_within (maxTokens b) 1 4000) \<or>
    (presencePenalty b \<noteq> JUndefined \<and> \<not> number_within (presencePenalty b) 0 2) \<or>
    (frequencyPenalty b \<noteq> JUndefined \<and> \<not> number_within (frequencyPenalty b) 0 2)
    \<longrightarrow> (\<exists>msg. validateChatRequest b = validation_error msg \<and>
           post_api_chat toNum upstream b =
             (\<lparr>status = 400,
               json = [(''error'', JStr msg), (''type'', JStr ''validation_error'')]\<rparr>, [])))"
proof (intro conjI impI)
  assume "validateChatRequest b = Next"
  then have n: "validateNumeric (numericValidations b) = Next"
    by (simp add: validateChatRequest_Next_iff)
  show "temperature b = JUndefined \<or> number_within (temperature b) 0 2"
    using n json_body_numbers(1) [OF assms] by (simp add: validateNumeric_Next_iff)
  show "maxTokens b = JUndefined \<or> number_within (maxTokens b) 1 4000"
    using n json_body_numbers(2) [OF assms] by (simp add: validateNumeric_Next_iff)
  show "presencePenalty b = JUndefined \<or> number_within (presencePenalty b) 0 2"
    using n json_body_numbers(3) [OF assms] by (simp add: validateNumeric_Next_iff)
  show "frequencyPenalty b = JUndefined \<or> number_within (frequencyPenalty b) 0 2"
    using n json_body_numbers(4) [OF assms] by (simp add: validateNumeric_Next_iff)
next
  assume "(temperature b \<noteq> JUndefined \<and> \<not> number_within (temperature b) 0 2) \<or>
    (maxTokens b \<noteq> JUndefined \<and> \<not> number_within (maxTokens b) 1 4000) \<or>
    (presencePenalty b \<noteq> JUndefined \<and> \<not> number_within (presencePenalty b) 0 2) \<or>
    (frequencyPenalty b \<noteq> JUndefined \<and> \<not> number_within (frequencyPenalty b) 0 2)"
  then have "validateNumeric (numericValidations b) \<noteq> Next"
    unfolding validateNumeric_Next_iff using json_body_numbers [OF assms] by blast
  then have "validateChatRequest b \<noteq> Next"
    by (simp add: validateChatRequest_Next_iff)
  then obtain msg where "validateChatRequest b = validation_error msg"
    using validateChatRequest_cases [of b] by auto
  then show "\<exists>msg. validateChatRequest b = validation_error msg \<and>
           post_api_chat toNum upstream b =
             (\<lparr>status = 400,
               json = [(''error'', JStr msg), (''type'', JStr ''validation_error'')]\<rparr>, [])"
    using validation_failure_at_endpoint by blast
qed

theorem present_number_witness:
  "json_body (empty_body\<lparr>userPrompt := JStr ''hi'', temperature := JNum (Fin (3 / 2))\<rparr>) \<and>
   validateChatRequest (empty_body\<lparr>userPrompt := JStr ''hi'', temperature := JNum (Fin (3 / 2))\<rparr>) = Next \<and>
   number_within (JNum (Fin (3 / 2))) 0 2 \<and>
   json_body (empty_body\<lparr>userPrompt := JStr ''hi'', temperature := JNum (Fin 5)\<rparr>) \<and>
   \<not> number_within (JNum (Fin 5)) 0 2 \<and>
   (\<exists>msg. post_api_chat (\<lambda>v. NaN) (\<lambda>rb. Inl TypeError)
            (empty_body\<lparr>userPrompt := JStr ''hi'', temperature := JNum (Fin 5)\<rparr>) =
          (\<lparr>status = 400,
            json = [(''error'', JStr msg), (''type'', JStr ''validation_error'')]\<rparr>, [])) \<and>
   json_body (empty_body\<lparr>userPrompt := JStr ''hi'', maxTokens := JStr ''1''\<rparr>) \<and>
   \<not> number_within (JStr ''1'') 1 4000 \<and>
   (\<exists>msg. post_api_chat (\<lambda>v. NaN) (\<lambda>rb. Inl TypeError)
            (empty_body\<lparr>userPrompt := JStr ''hi'', maxTokens := JStr ''1''\<rparr>) =
          (\<lparr>status = 400,
            json = [(''error'', JStr msg), (''type'', JStr ''validation_error'')]\<rparr>, []))"
proof -
  have j1: "json_body (empty_body\<lparr>userPrompt := JStr ''hi'', temperature := JNum (Fin (3 / 2))\<rparr>)"
    by (simp add: json_body_def empty_body_def)
  have j2: "json_body (empty_body\<lparr>userPrompt := JStr ''hi'', temperature := JNum (Fin 5)\<rparr>)"
    by (simp add: json_body_def empty_body_def)
  have j3: "json_body (empty_body\<lparr>userPrompt := JStr ''hi'', maxTokens := JStr ''1''\<rparr>)"
    by (simp add: json_body_def empty_body_def)
  have a: "validateChatRequest
             (empty_body\<lparr>userPrompt := JStr ''hi'', temperature := JNum (Fin (3 / 2))\<rparr>) = Next"
    by (simp add: validateChatRequest_Next_iff validateNumeric_Next_iff empty_body_def trim_hi)
  have w: "number_within (JNum (Fin (3 / 2))) 0 2"
    using a present_number_accepted_only_within_bound [OF j1] by simp
  have r: "\<exists>msg. post_api_chat (\<lambda>v. NaN) (\<lambda>rb. Inl TypeError)
            (empty_body\<lparr>userPrompt := JStr ''hi'', temperature := JNum (Fin 5)\<rparr>) =
          (\<lparr>status = 400,
            json = [(''error'', JStr msg), (''type'', JStr ''validation_error'')]\<rparr>, [])"
    using present_number_accepted_only_within_bound
      [OF j2, of "\<lambda>v. NaN" "\<lambda>rb. Inl TypeError"]
    by auto
  have t: "\<exists>msg. post_api_chat (\<lambda>v. NaN) (\<lambda>rb. Inl TypeError)
            (empty_body\<lparr>userPrompt := JStr ''hi'', maxTokens := JStr ''1''\<rparr>) =
          (\<lparr>status = 400,
            json = [(''error'', JStr msg), (''type'', JStr ''validation_error'')]\<rparr>, [])"
    using present_number_accepted_only_within_bound
      [OF j3, of "\<lambda>v. NaN" "\<lambda>rb. Inl TypeError"]
    by auto
  show ?thesis
    using j1 j2 j3 a w r t by simp
qed

section \<open>The model\<close>

text \<open>
  C8 as stated fails at the empty string: the request carries a \<open>model\<close> that is not
  in the allow-list, is accepted, and is sent upstream with \<open>gpt-3.5-turbo\<close>.
\<close>

theorem empty_model_accepted_counterexample:
  "JStr [] \<notin> set allowedModels \<and>
   validateChatRequest (empty_body\<lparr>userPrompt := JStr ''hi'', model := JStr []\<rparr>) = Next \<and>
   map rb_model
     (snd (post_api_chat (\<lambda>v. NaN) (\<lambda>rb. Inl TypeError)
        (empty_body\<lparr>userPrompt := JStr ''hi'', model := JStr []\<rparr>))) = [JStr ''gpt-3.5-turbo'']"
proof -
  have v: "validateChatRequest (empty_body\<lparr>userPrompt := JStr ''hi'', model := JStr []\<rparr>) = Next"
    by (simp add: validateChatRequest_Next_iff validateNumeric_Next_iff empty_body_def trim_hi)
  have m: "map rb_model
     (snd (chatHandler (\<lambda>v. NaN) (\<lambda>rb. Inl TypeError)
        (empty_body\<lparr>userPrompt := JStr ''hi'', model := JStr []\<rparr>))) = [JStr ''gpt-3.5-turbo'']"
    by (simp add: chatHandler_def prepareRequest_def prepare_hi empty_body_def js_or_def)
  show ?thesis
    using v m by (simp add: post_api_chat_def route_def allowedModels_def)
qed

lemma validateChatRequest_cong_model:
  assumes "userPrompt b = userPrompt b'" and "systemPrompt b = systemPrompt b'"
    and "(truthy (model b) \<and> model b \<notin> set allowedModels) =
         (truthy (model b') \<and> model b' \<notin> set allowedModels)"
    and "stopSequence b = stopSequence b'"
    and "validateNumeric (numericValidations b) = validateNumeric (numericValidations b')"
  shows "validateChatRequest b = validateChatRequest b'"
  unfolding validateChatRequest_def assms by (rule refl)

lemma falsy_model_as_absent:
  assumes "\<not> truthy (model b)"
  shows "validateChatRequest b = validateChatRequest (b\<lparr>model := JUndefined\<rparr>)"
  by (rule validateChatRequest_cong_model) (simp_all add: assms numericValidations_def)

text \<open>
  C8, amended. The allow-list holds the three identifiers. A request whose \<open>model\<close>
  is truthy is accepted only if the model is in the allow-list, and is answered with a
  validation failure otherwise. A falsy \<open>model\<close> (absent, null, false, 0, NaN or the
  empty string) is not checked: the verdict on the request is the verdict on the same
  request without a model. The request builder forwards a truthy model as it is and
  \<open>gpt-3.5-turbo\<close> for a falsy one.
\<close>

theorem truthy_model_checked_against_allow_list:
  "set allowedModels = {JStr ''gpt-3.5-turbo'', JStr ''gpt-4'', JStr ''gpt-4-turbo-preview''} \<and>
   (truthy (model b) \<and> validateChatRequest b = Next \<longrightarrow> model b \<in> set allowedModels) \<and>
   (truthy (model b) \<and> model b \<notin> set allowedModels \<longrightarrow>
      (\<exists>msg. validateChatRequest b = validation_error msg)) \<and>
   (\<not> truthy (model b) \<longrightarrow>
      validateChatRequest b = validateChatRequest (b\<lparr>model := JUndefined\<rparr>)) \<and>
   (prepareRequest toNum b = Inr rb \<longrightarrow>
      rb_model rb = (if truthy (model b) then model b else JStr ''gpt-3.5-turbo''))"
proof (intro conjI impI)
  show "set allowedModels = {JStr ''gpt-3.5-turbo'', JStr ''gpt-4'', JStr ''gpt-4-turbo-preview''}"
    by (simp add: allowedModels_def)
next
  assume "truthy (model b) \<and> validateChatRequest b = Next"
  then show "model b \<in> set allowedModels"
    by (simp add: validateChatRequest_Next_iff)
next
  assume "truthy (model b) \<and> model b \<notin> set allowedModels"
  then have "validateChatRequest b \<noteq> Next"
    by (simp add: validateChatRequest_Next_iff)
  then show "\<exists>msg. validateChatRequest b = validation_error msg"
    using validateChatRequest_cases [of b] by simp
next
  assume "\<not> truthy (model b)"
  then show "validateChatRequest b = validateChatRequest (b\<lparr>model := JUndefined\<rparr>)"
    by (rule falsy_model_as_absent)
next
  assume "prepareRequest toNum b = Inr rb"
  then show "rb_model rb = (if truthy (model b) then model b else JStr ''gpt-3.5-turbo'')"
    by (simp add: prepareRequest_fields(1) js_or_def)
qed

theorem model_witness:
  "truthy (JStr ''gpt-5'') \<and> JStr ''gpt-5'' \<notin> set allowedModels \<and>
   (\<exists>msg. validateChatRequest (empty_body\<lparr>userPrompt := JStr ''hi'', model := JStr ''gpt-5''\<rparr>)
      = validation_error msg) \<and>
   truthy (JStr ''gpt-4'') \<and>
   validateChatRequest (empty_body\<lparr>userPrompt := JStr ''hi'', model := JStr ''gpt-4''\<rparr>) = Next \<and>
   JStr ''gpt-4'' \<in> set allowedModels \<and>
   \<not> truthy JNull \<and>
   validateChatRequest (empty_body\<lparr>userPrompt := JStr ''hi'', model := JNull\<rparr>) = Next \<and>
   prepareRequest (\<lambda>v. NaN) (empty_body\<lparr>userPrompt := JStr ''hi''\<rparr>) =
     Inr \<lparr>rb_model = JStr ''gpt-3.5-turbo'',
          messages = [\<lparr>role = ''user'', content = ''hi''\<rparr>],
          rb_temperature = Fin (7 / 10), max_tokens = Fin 1000, presence_penalty = Fin 0,
          frequency_penalty = Fin 0, stop = None\<rparr>"
proof -
  have t: "truthy (JStr ''gpt-5'') \<and> JStr ''gpt-5'' \<notin> set allowedModels"
    by (simp add: allowedModels_def)
  have r: "\<exists>msg. validateChatRequest
             (empty_body\<lparr>userPrompt := JStr ''hi'', model := JStr ''gpt-5''\<rparr>)
           = validation_error msg"
    using t truthy_model_checked_against_allow_list
      [of "empty_body\<lparr>userPrompt := JStr ''hi'', model := JStr ''gpt-5''\<rparr>"]
    by simp
  have a: "validateChatRequest
             (empty_body\<lparr>userPrompt := JStr ''hi'', model := JStr ''gpt-4''\<rparr>) = Next"
    by (simp add: validateChatRequest_Next_iff validateNumeric_Next_iff empty_body_def trim_hi
          allowedModels_def)
  have i: "JStr ''gpt-4'' \<in> set allowedModels"
    using a truthy_model_checked_against_allow_list
      [of "empty_body\<lparr>userPrompt := JStr ''hi'', model := JStr ''gpt-4''\<rparr>"]
    by simp
  have u: "validateChatRequest
             (empty_body\<lparr>userPrompt := JStr ''hi'', model := JUndefined\<rparr>) = Next"
    using validate_hi by (simp add: empty_body_def)
  have n: "validateChatRequest
             (empty_body\<lparr>userPrompt := JStr ''hi'', model := JNull\<rparr>) = Next"
    using u truthy_model_checked_against_allow_list
      [of "empty_body\<lparr>userPrompt := JStr ''hi'', model := JNull\<rparr>"]
    by simp
  have p: "prepareRequest (\<lambda>v. NaN) (empty_body\<lparr>userPrompt := JStr ''hi''\<rparr>) =
     Inr \<lparr>rb_model = JStr ''gpt-3.5-turbo'',
          messages = [\<lparr>role = ''user'', content = ''hi''\<rparr>],
          rb_temperature = Fin (7 / 10), max_tokens = Fin 1000, presence_penalty = Fin 0,
          frequency_penalty = Fin 0, stop = None\<rparr>"
    by (simp add: prepareRequest_def prepare_hi empty_body_def clamp_examples js_or_def)
  show ?thesis
    using t r a i n p by simp
qed

section \<open>Upstream failures\<close>

lemma response_type_error_response [simp]:
  "response_type (error_response st msg ty) = JStr ty"
  "status (error_response st msg ty) = st"
  by (simp_all add: response_type_def error_response_def)

lemma handler_upstream_failure:
  assumes "validateChatRequest b = Next" and "prepareRequest toNum b = Inr rb"
    and "upstream rb = Inl e"
  shows "post_api_chat toNum upstream b = (translateError e, [rb])"
  using assms by (simp add: post_api_chat_def route_def chatHandler_def)

lemma translateError_unexpected:
  assumes "error_code e \<notin> {JStr ''insufficient_quota'', JStr ''invalid_api_key'',
             JStr ''model_not_found'', JStr ''rate_limit_exceeded''}"
    and "error_name e \<noteq> JStr ''AbortError''"
  shows "translateError e =
           \<lparr>status = 500,
            json = [(''error'', JStr ''An error occurred while processing your request''),
                    (''type'', JStr ''server_error'')]\<rparr>"
  using assms by (simp add: translateError_def error_response_def)

text \<open>
  The \<open>catch\<close> block maps an error to one fixed pair of status and type: by its
  code first, then by the name \<open>AbortError\<close>, and to 500 \<open>server_error\<close> otherwise.
\<close>

lemma translateError_table:
  "(error_code e = JStr ''insufficient_quota'' \<longrightarrow>
      status (translateError e) = 402 \<and> response_type (translateError e) = JStr ''quota_exceeded'') \<and>
   (error_code e = JStr ''invalid_api_key'' \<longrightarrow>
      status (translateError e) = 401 \<and> response_type (translateError e) = JStr ''invalid_key'') \<and>
   (error_code e = JStr ''model_not_found'' \<longrightarrow>
      status (translateError e) = 400 \<and> response_type (translateError e) = JStr ''model_not_found'') \<and>
   (error_code e = JStr ''rate_limit_exceeded'' \<longrightarrow>
      status (translateError e) = 429 \<and> response_type (translateError e) = JStr ''rate_limit'') \<and>
   (error_code e \<notin> {JStr ''insufficient_quota'', JStr ''invalid_api_key'',
        JStr ''model_not_found'', JStr ''rate_limit_exceeded''} \<longrightarrow>
      (error_name e = JStr ''AbortError'' \<longrightarrow>
         status (translateError e) = 408 \<and> response_type (translateError e) = JStr ''timeout'') \<and>
      (error_name e \<noteq> JStr ''AbortError'' \<longrightarrow>
         status (translateError e) = 500 \<and> response_type (translateError e) = JStr ''server_error'')) \<and>
   (validateChatRequest b = Next \<and> prepareRequest toNum b = Inr rb \<and> upstream rb = Inl e \<longrightarrow>
      post_api_chat toNum upstream b = (translateError e, [rb]))"
proof (intro conjI impI)
  assume "validateChatRequest b = Next \<and> prepareRequest toNum b = Inr rb \<and> upstream rb = Inl e"
  then show "post_api_chat toNum upstream b = (translateError e, [rb])"
    by (simp add: handler_upstream_failure)
qed (simp_all add: translateError_def)

section \<open>Unexpected errors\<close>

text \<open>
  C6. The first server answers an unexpected error with the message of the error
  itself: two different unexpected errors get two different bodies, each carrying the
  upstream text.
\<close>

theorem first_server_answers_with_upstream_message:
  "translateError_index \<lparr>code = JUndefined, name = JStr ''Error'',
        message = JStr ''connect ECONNREFUSED 10.0.0.5:443''\<rparr> =
     \<lparr>status = 500,
      json = [(''error'', JStr ''connect ECONNREFUSED 10.0.0.5:443''),
              (''type'', JStr ''server_error'')]\<rparr> \<and>
   translateError_index \<lparr>code = JUndefined, name = JStr ''Error'',
        message = JStr ''getaddrinfo ENOTFOUND api.openai.com''\<rparr> =
     \<lparr>status = 500,
      json = [(''error'', JStr ''getaddrinfo ENOTFOUND api.openai.com''),
              (''type'', JStr ''server_error'')]\<rparr> \<and>
   translateError_index \<lparr>code = JUndefined, name = JStr ''Error'',
        message = JStr ''connect ECONNREFUSED 10.0.0.5:443''\<rparr> \<noteq>
   translateError_index \<lparr>code = JUndefined, name = JStr ''Error'',
        message = JStr ''getaddrinfo ENOTFOUND api.openai.com''\<rparr>"
  by (simp add: translateError_index_def js_or_def)

theorem first_server_witness:
  "translateError_index \<lparr>code = JUndefined, name = JStr ''Error'',
        message = JStr ''connect ECONNREFUSED 10.0.0.5:443''\<rparr> \<noteq>
   translateError_index \<lparr>code = JUndefined, name = JStr ''Error'',
        message = JStr ''getaddrinfo ENOTFOUND api.openai.com''\<rparr>"
  using first_server_answers_with_upstream_message by simp

text \<open>
  The server with validation middleware gives every unexpected error the same answer.
\<close>

lemma translateError_unexpected_same_answer:
  assumes "error_code e \<notin> {JStr ''insufficient_quota'', JStr ''invalid_api_key'',
             JStr ''model_not_found'', JStr ''rate_limit_exceeded''}"
    and "error_name e \<noteq> JStr ''AbortError''"
    and "error_code e' \<notin> {JStr ''insufficient_quota'', JStr ''invalid_api_key'',
             JStr ''model_not_found'', JStr ''rate_limit_exceeded''}"
    and "error_name e' \<noteq> JStr ''AbortError''"
  shows "translateError e = translateError e'"
  using translateError_unexpected [OF assms(1,2)] translateError_unexpected [OF assms(3,4)]
  by simp

section \<open>Stop sequences\<close>

lemma split_no_separator: "sep \<notin> set s \<Longrightarrow> split sep s = [s]"
  by (induction s) auto

lemma comma_not_white_space: "\<not> isWhiteSpace CHR '',''"
  by (simp add: isWhiteSpace_def)

lemma trim_Nil [simp]: "trim [] = []"
  by (simp add: trim_def)

lemma stop_sequences_spec_blank:
  assumes "trim s = []"
  shows "stop_sequences_spec s = None"
proof -
  have "\<forall>c\<in>set s. isWhiteSpace c"
    using assms by (simp add: trim_Nil_iff)
  then have "CHR '','' \<notin> set s"
    using comma_not_white_space by blast
  then have "split CHR '','' s = [s]"
    by (rule split_no_separator)
  then show ?thesis
    by (simp add: stop_sequences_spec_def assms)
qed

lemma prepareStop_string: "prepareStop (JStr s) = Inr (stop_sequences_spec s)"
proof (cases "trim s = []")
  case True
  then show ?thesis
    by (simp add: prepareStop_def stop_sequences_spec_blank)
next
  case False
  then have "s \<noteq> []" by auto
  with False show ?thesis
    by (simp add: prepareStop_def stop_sequences_spec_def Let_def not_less)
qed

lemma trim_samples:
  "trim ''a'' = ''a''" "trim ''b'' = ''b''" "trim ''c'' = ''c''" "trim ''d'' = ''d''"
  "trim ''e'' = ''e''" "trim '' '' = []"
  by (simp_all add: trim_def isWhiteSpace_def)

text \<open>
  C4. For every string \<open>stopSequence\<close>, the stop field of the payload is what the
  specification describes: the comma-separated tokens, trimmed, without the empty ones
  and without those longer than 100 characters, at most the first 4; and no stop field
  when that list is empty. \<open>a,,b,c,d,e\<close> gives the four tokens a, b, c and d, and
  \<open>,, ,\<close> gives no stop field.
\<close>

theorem stop_field_is_first_four_trimmed_tokens:
  "prepareStop (JStr s) = Inr (stop_sequences_spec s) \<and>
   (stopSequence b = JStr s \<and> prepareRequest toNum b = Inr rb \<longrightarrow>
      stop rb = stop_sequences_spec s) \<and>
   prepareStop (JStr ''a,,b,c,d,e'') = Inr (Some [''a'', ''b'', ''c'', ''d'']) \<and>
   prepareStop (JStr '',, ,'') = Inr None"
proof (intro conjI impI)
  show "prepareStop (JStr s) = Inr (stop_sequences_spec s)"
    by (rule prepareStop_string)
next
  assume a: "stopSequence b = JStr s \<and> prepareRequest toNum b = Inr rb"
  then have "prepareStop (JStr s) = Inr (stop rb)"
    using prepareRequest_fields(7) [of toNum b rb] by simp
  then show "stop rb = stop_sequences_spec s"
    by (simp add: prepareStop_string)
next
  show "prepareStop (JStr ''a,,b,c,d,e'') = Inr (Some [''a'', ''b'', ''c'', ''d''])"
    by (simp add: prepareStop_string stop_sequences_spec_def trim_samples)
next
  show "prepareStop (JStr '',, ,'') = Inr None"
    by (simp add: prepareStop_string stop_sequences_spec_def trim_samples)
qed

theorem stop_field_witness:
  "stopSequence (empty_body\<lparr>userPrompt := JStr ''hi'', stopSequence := JStr ''a,,b,c,d,e''\<rparr>) =
     JStr ''a,,b,c,d,e'' \<and>
   prepareRequest (\<lambda>v. NaN)
       (empty_body\<lparr>userPrompt := JStr ''hi'', stopSequence := JStr ''a,,b,c,d,e''\<rparr>) =
     Inr \<lparr>rb_model = JStr ''gpt-3.5-turbo'',
          messages = [\<lparr>role = ''user'', content = ''hi''\<rparr>],
          rb_temperature = Fin (7 / 10), max_tokens = Fin 1000, presence_penalty = Fin 0,
          frequency_penalty = Fin 0, stop = Some [''a'', ''b'', ''c'', ''d'']\<rparr> \<and>
   stop_sequences_spec ''a,,b,c,d,e'' = Some [''a'', ''b'', ''c'', ''d'']"
proof -
  have s: "prepareStop (JStr ''a,,b,c,d,e'') = Inr (Some [''a'', ''b'', ''c'', ''d''])"
    using stop_field_is_first_four_trimmed_tokens by blast
  have p: "prepareRequest (\<lambda>v. NaN)
       (empty_body\<lparr>userPrompt := JStr ''hi'', stopSequence := JStr ''a,,b,c,d,e''\<rparr>) =
     Inr \<lparr>rb_model = JStr ''gpt-3.5-turbo'',
          messages = [\<lparr>role = ''user'', content = ''hi''\<rparr>],
          rb_temperature = Fin (7 / 10), max_tokens = Fin 1000, presence_penalty = Fin 0,
          frequency_penalty = Fin 0, stop = Some [''a'', ''b'', ''c'', ''d'']\<rparr>"
    by (simp add: prepareRequest_def prepare_hi s empty_body_def clamp_examples js_or_def)
  have "stop \<lparr>rb_model = JStr ''gpt-3.5-turbo'',
          messages = [\<lparr>role = ''user'', content = ''hi''\<rparr>],
          rb_temperature = Fin (7 / 10), max_tokens = Fin 1000, presence_penalty = Fin 0,
          frequency_penalty = Fin 0, stop = Some [''a'', ''b'', ''c'', ''d'']\<rparr> =
        stop_sequences_spec ''a,,b,c,d,e''"
    using p stop_field_is_first_four_trimmed_tokens
      [of "''a,,b,c,d,e''"
          "empty_body\<lparr>userPrompt := JStr ''hi'', stopSequence := JStr ''a,,b,c,d,e''\<rparr>"
          "\<lambda>v. NaN"
          "\<lparr>rb_model = JStr ''gpt-3.5-turbo'',
          messages = [\<lparr>role = ''user'', content = ''hi''\<rparr>],
          rb_temperature = Fin (7 / 10), max_tokens = Fin 1000, presence_penalty = Fin 0,
          frequency_penalty = Fin 0, stop = Some [''a'', ''b'', ''c'', ''d'']\<rparr>"]
    by simp
  then show ?thesis
    using p by simp
qed

section \<open>The user prompt\<close>

lemma prepareMessages_accepted:
  assumes "truthy sp \<longrightarrow> typeof sp = ''string''"
  shows "\<exists>msgs. prepareMessages sp (JStr s) =
           Inr (msgs @ [\<lparr>role = ''user'', content = trim s\<rparr>])"
proof (cases "truthy sp")
  case True
  with assms obtain t where "sp = JStr t"
    by (auto simp: typeof_string_iff)
  then show ?thesis
    by (simp add: prepareMessages_def)
next
  case False
  then show ?thesis
    by (simp add: prepareMessages_def)
qed

lemma prepareStop_accepted:
  assumes "truthy ss \<longrightarrow> typeof ss = ''string''"
  shows "\<exists>st. prepareStop ss = Inr st"
proof (cases "truthy ss")
  case True
  with assms obtain t where "ss = JStr t"
    by (auto simp: typeof_string_iff)
  then show ?thesis
    by (simp add: prepareStop_string)
next
  case False
  then show ?thesis
    by (simp add: prepareStop_def)
qed

lemma accepted_request_is_built:
  assumes "validateChatRequest b = Next"
  shows "\<exists>s rb. userPrompt b = JStr s \<and> prepareRequest toNum b = Inr rb \<and>
           messages rb \<noteq> [] \<and> last (messages rb) = \<lparr>role = ''user'', content = trim s\<rparr>"
proof -
  from assms obtain s where s: "userPrompt b = JStr s"
    by (auto simp: validateChatRequest_Next_iff typeof_string_iff)
  from assms have "truthy (systemPrompt b) \<longrightarrow> typeof (systemPrompt b) = ''string''"
    by (simp add: validateChatRequest_Next_iff)
  then obtain msgs where m: "prepareMessages (systemPrompt b) (JStr s) =
      Inr (msgs @ [\<lparr>role = ''user'', content = trim s\<rparr>])"
    using prepareMessages_accepted by blast
  from assms have "truthy (stopSequence b) \<longrightarrow> typeof (stopSequence b) = ''string''"
    by (simp add: validateChatRequest_Next_iff)
  then obtain st where t: "prepareStop (stopSequence b) = Inr st"
    using prepareStop_accepted by blast
  show ?thesis
    by (simp add: s prepareRequest_def m t)
qed

text \<open>
  C10. The length limit applies to the \<open>userPrompt\<close> as it came: a prompt of more than
  8000 code units is answered with a validation failure, whatever its length after
  trimming. An accepted request is built into a payload whose last message is the user
  message with the trimmed prompt, and that payload is the one sent upstream.
\<close>

theorem length_limit_on_raw_prompt_and_trimmed_prompt_forwarded:
  "(userPrompt b = JStr s \<and> 8000 < length s \<longrightarrow>
      validateChatRequest b \<in>
        {validation_error ''User prompt is required and must be a non-empty string'',
         validation_error ''User prompt too long (max 8000 characters)''}) \<and>
   (validateChatRequest b = Next \<longrightarrow>
      (\<exists>s rb. userPrompt b = JStr s \<and> prepareRequest toNum b = Inr rb \<and>
         messages rb \<noteq> [] \<and> last (messages rb) = \<lparr>role = ''user'', content = trim s\<rparr> \<and>
         (\<exists>r. post_api_chat toNum upstream b = (r, [rb]))))"
proof (intro conjI impI)
  assume a: "userPrompt b = JStr s \<and> 8000 < length s"
  show "validateChatRequest b \<in>
        {validation_error ''User prompt is required and must be a non-empty string'',
         validation_error ''User prompt too long (max 8000 characters)''}"
  proof (cases "trim s = []")
    case True
    then show ?thesis
      using a by (simp add: validateChatRequest_def)
  next
    case False
    then have "s \<noteq> []" by auto
    with False show ?thesis
      using a by (simp add: validateChatRequest_def)
  qed
next
  assume a: "validateChatRequest b = Next"
  then obtain s rb where r: "userPrompt b = JStr s" "prepareRequest toNum b = Inr rb"
      "messages rb \<noteq> []" "last (messages rb) = \<lparr>role = ''user'', content = trim s\<rparr>"
    using accepted_request_is_built [of b toNum] by blast
  have "\<exists>r. post_api_chat toNum upstream b = (r, [rb])"
    using a r(2) by (simp add: post_api_chat_def route_def chatHandler_def split: sum.splits)
  with r show "\<exists>s rb. userPrompt b = JStr s \<and> prepareRequest toNum b = Inr rb \<and>
         messages rb \<noteq> [] \<and> last (messages rb) = \<lparr>role = ''user'', content = trim s\<rparr> \<and>
         (\<exists>r. post_api_chat toNum upstream b = (r, [rb]))"
    by blast
qed

lemma trim_trailing_spaces: "trim (CHR ''a'' # replicate n CHR '' '') = ''a''"
proof -
  have "dropWhile isWhiteSpace (replicate n CHR '' '' @ ''a'') = dropWhile isWhiteSpace ''a''"
    by (rule dropWhile_append2) (simp add: isWhiteSpace_def)
  then have "dropWhile isWhiteSpace (replicate n CHR '' '' @ ''a'') = ''a''"
    by (simp add: isWhiteSpace_def)
  then show ?thesis
    by (simp add: trim_def isWhiteSpace_def)
qed

lemma trim_padded_hi: "trim ''  hi '' = ''hi''"
  by (simp add: trim_def isWhiteSpace_def)

theorem raw_length_witness:
  "8000 < length (CHR ''a'' # replicate 8000 CHR '' '') \<and>
   length (trim (CHR ''a'' # replicate 8000 CHR '' '')) \<le> 8000 \<and>
   validateChatRequest (empty_body\<lparr>userPrompt := JStr (CHR ''a'' # replicate 8000 CHR '' '')\<rparr>) \<in>
     {validation_error ''User prompt is required and must be a non-empty string'',
      validation_error ''User prompt too long (max 8000 characters)''} \<and>
   validateChatRequest (empty_body\<lparr>userPrompt := JStr ''  hi ''\<rparr>) = Next \<and>
   (\<exists>r. post_api_chat (\<lambda>v. NaN) (\<lambda>rb. Inl TypeError) (empty_body\<lparr>userPrompt := JStr ''  hi ''\<rparr>) =
      (r, [\<lparr>rb_model = JStr ''gpt-3.5-turbo'',
            messages = [\<lparr>role = ''user'', content = ''hi''\<rparr>],
            rb_temperature = Fin (7 / 10), max_tokens = Fin 1000, presence_penalty = Fin 0,
            frequency_penalty = Fin 0, stop = None\<rparr>]))"
proof -
  have l: "8000 < length (CHR ''a'' # replicate 8000 CHR '' '')"
    by simp
  have t: "length (trim (CHR ''a'' # replicate 8000 CHR '' '')) \<le> 8000"
    by (simp add: trim_trailing_spaces)
  have u: "userPrompt (empty_body\<lparr>userPrompt := JStr (CHR ''a'' # replicate 8000 CHR '' '')\<rparr>) =
             JStr (CHR ''a'' # replicate 8000 CHR '' '')"
    by simp
  have r: "validateChatRequest
             (empty_body\<lparr>userPrompt := JStr (CHR ''a'' # replicate 8000 CHR '' '')\<rparr>) \<in>
     {validation_error ''User prompt is required and must be a non-empty string'',
      validation_error ''User prompt too long (max 8000 characters)''}"
    using l u length_limit_on_raw_prompt_and_trimmed_prompt_forwarded
      [of "empty_body\<lparr>userPrompt := JStr (CHR ''a'' # replicate 8000 CHR '' '')\<rparr>"
          "CHR ''a'' # replicate 8000 CHR '' ''"]
    by blast
  have a: "validateChatRequest (empty_body\<lparr>userPrompt := JStr ''  hi ''\<rparr>) = Next"
    by (simp add: validateChatRequest_Next_iff validateNumeric_Next_iff empty_body_def
          trim_padded_hi)
  have p: "prepareRequest (\<lambda>v. NaN) (empty_body\<lparr>userPrompt := JStr ''  hi ''\<rparr>) =
      Inr \<lparr>rb_model = JStr ''gpt-3.5-turbo'',
            messages = [\<lparr>role = ''user'', content = ''hi''\<rparr>],
            rb_temperature = Fin (7 / 10), max_tokens = Fin 1000, presence_penalty = Fin 0,
            frequency_penalty = Fin 0, stop = None\<rparr>"
    by (simp add: prepareRequest_def prepareMessages_def prepare_hi empty_body_def
          trim_padded_hi clamp_examples js_or_def)
  have "\<exists>r. post_api_chat (\<lambda>v. NaN) (\<lambda>rb. Inl TypeError)
               (empty_body\<lparr>userPrompt := JStr ''  hi ''\<rparr>) =
      (r, [\<lparr>rb_model = JStr ''gpt-3.5-turbo'',
            messages = [\<lparr>role = ''user'', content = ''hi''\<rparr>],
            rb_temperature = Fin (7 / 10), max_tokens = Fin 1000, presence_penalty = Fin 0,
            frequency_penalty = Fin 0, stop = None\<rparr>])"
  proof -
    from a obtain rb r where
      "prepareRequest (\<lambda>v. NaN) (empty_body\<lparr>userPrompt := JStr ''  hi ''\<rparr>) = Inr rb"
      "post_api_chat (\<lambda>v. NaN) (\<lambda>rb. Inl TypeError)
         (empty_body\<lparr>userPrompt := JStr ''  hi ''\<rparr>) = (r, [rb])"
      using length_limit_on_raw_prompt_and_trimmed_prompt_forwarded
        [of "empty_body\<lparr>userPrompt := JStr ''  hi ''\<rparr>" "[]" "\<lambda>v. NaN"
            "\<lambda>rb. Inl TypeError"]
      by blast
    with p show ?thesis by simp
  qed
  then show ?thesis
    using l t r a by blast
qed

section \<open>A call that times out\<close>

text \<open>
  C5. The timeout row of the table is not reached by a call that times out: the error
  the client rejects with on abort has no code and the name \<open>Error\<close>, so the \<open>catch\<close>
  block answers 500 \<open>server_error\<close>, not 408 \<open>timeout\<close>, for every accepted
  request.
\<close>

theorem aborted_upstream_call_answered_500:
  "error_code APIUserAbortError = JUndefined \<and>
   error_name APIUserAbortError \<noteq> JStr ''AbortError'' \<and>
   translateError APIUserAbortError =
     \<lparr>status = 500,
      json = [(''error'', JStr ''An error occurred while processing your request''),
              (''type'', JStr ''server_error'')]\<rparr> \<and>
   (validateChatRequest b = Next \<longrightarrow>
      fst (post_api_chat toNum (\<lambda>rb. Inl APIUserAbortError) b) =
        \<lparr>status = 500,
         json = [(''error'', JStr ''An error occurred while processing your request''),
                 (''type'', JStr ''server_error'')]\<rparr>)"
proof (intro conjI impI)
  show "error_code APIUserAbortError = JUndefined"
    by (simp add: APIUserAbortError_def)
  show "error_name APIUserAbortError \<noteq> JStr ''AbortError''"
    by (simp add: APIUserAbortError_def)
  show t: "translateError APIUserAbortError =
     \<lparr>status = 500,
      json = [(''error'', JStr ''An error occurred while processing your request''),
              (''type'', JStr ''server_error'')]\<rparr>"
    by (rule translateError_unexpected) (simp_all add: APIUserAbortError_def)
  assume a: "validateChatRequest b = Next"
  then obtain rb where "prepareRequest toNum b = Inr rb"
    using accepted_request_is_built [of b toNum] by blast
  then have "post_api_chat toNum (\<lambda>rb. Inl APIUserAbortError) b =
               (translateError APIUserAbortError, [rb])"
    using a by (simp add: handler_upstream_failure)
  then show "fst (post_api_chat toNum (\<lambda>rb. Inl APIUserAbortError) b) =
        \<lparr>status = 500,
         json = [(''error'', JStr ''An error occurred while processing your request''),
                 (''type'', JStr ''server_error'')]\<rparr>"
    by (simp add: t)
qed

theorem aborted_upstream_call_witness:
  "validateChatRequest (empty_body\<lparr>userPrompt := JStr ''hi''\<rparr>) = Next \<and>
   fst (post_api_chat (\<lambda>v. NaN) (\<lambda>rb. Inl APIUserAbortError)
          (empty_body\<lparr>userPrompt := JStr ''hi''\<rparr>)) =
     \<lparr>status = 500,
      json = [(''error'', JStr ''An error occurred while processing your request''),
              (''type'', JStr ''server_error'')]\<rparr>"
  using validate_hi aborted_upstream_call_answered_500
    [of "empty_body\<lparr>userPrompt := JStr ''hi''\<rparr>" "\<lambda>v. NaN"]
  by blast

section \<open>Values that are not numbers\<close>

lemma clamp_NaN:
  assumes "truthy v" and "ToNumber toNum v = NaN"
  shows "clamp toNum lo hi v d = NaN"
  using assms by (simp add: clamp_def js_or_def Math_max_def Math_min_def)

text \<open>
  C7. A truthy value that ToNumber converts to NaN passes through both \<open>Math.min\<close>
  and \<open>Math.max\<close> as NaN: a \<open>maxTokens\<close> of \<open>'abc'\<close> reaching the handler is
  forwarded as NaN, which is not within [1, 4000].
\<close>

theorem non_numeric_value_forwarded_as_NaN:
  "(truthy v \<and> ToNumber toNum v = NaN \<longrightarrow> clamp toNum lo hi v d = NaN) \<and>
   (toNum (JStr ''abc'') = NaN \<longrightarrow>
      map max_tokens
        (snd (chatHandler toNum upstream
           (empty_body\<lparr>userPrompt := JStr ''hi'', maxTokens := JStr ''abc''\<rparr>))) = [NaN] \<and>
      \<not> number_within (JNum NaN) 1 4000)"
proof (intro conjI impI)
  assume "truthy v \<and> ToNumber toNum v = NaN"
  then show "clamp toNum lo hi v d = NaN"
    by (simp add: clamp_NaN)
next
  assume n: "toNum (JStr ''abc'') = NaN"
  have c: "clamp toNum (Fin 1) (Fin 4000) (JStr ''abc'') (JNum (Fin 1000)) = NaN"
    by (rule clamp_NaN) (simp_all add: n)
  have "\<exists>rb. prepareRequest toNum
               (empty_body\<lparr>userPrompt := JStr ''hi'', maxTokens := JStr ''abc''\<rparr>) = Inr rb \<and>
             max_tokens rb = NaN"
    by (simp add: prepareRequest_def prepare_hi empty_body_def c)
  then show "map max_tokens
        (snd (chatHandler toNum upstream
           (empty_body\<lparr>userPrompt := JStr ''hi'', maxTokens := JStr ''abc''\<rparr>))) = [NaN]"
    by (auto simp: chatHandler_def split: sum.splits)
next
  show "\<not> number_within (JNum NaN) 1 4000"
    by simp
qed

theorem non_numeric_value_witness:
  "map max_tokens
     (snd (chatHandler (\<lambda>v. NaN) (\<lambda>rb. Inl TypeError)
        (empty_body\<lparr>userPrompt := JStr ''hi'', maxTokens := JStr ''abc''\<rparr>))) = [NaN] \<and>
   \<not> number_within (JNum NaN) 1 4000"
  using non_numeric_value_forwarded_as_NaN [of _ "\<lambda>v. NaN" _ _ _ "\<lambda>rb. Inl TypeError"]
  by simp

end
